theory Spec2Isabelle
  imports Main "HOL-Library.Word" "HOL-Library.Sublist"
begin

section \<open>Protocol constants (constants.ts)\<close>

type_synonym byte = "8 word"
type_synonym Buffer = "byte list"

abbreviation (input) RFC_1928_ATYP_DOMAINNAME :: byte where "RFC_1928_ATYP_DOMAINNAME \<equiv> 0x03"
abbreviation (input) RFC_1928_ATYP_IPV4 :: byte where "RFC_1928_ATYP_IPV4 \<equiv> 0x01"
abbreviation (input) RFC_1928_ATYP_IPV6 :: byte where "RFC_1928_ATYP_IPV6 \<equiv> 0x04"

abbreviation (input) RFC_1928_COMMANDS_BIND :: byte where "RFC_1928_COMMANDS_BIND \<equiv> 0x02"
abbreviation (input) RFC_1928_COMMANDS_CONNECT :: byte where "RFC_1928_COMMANDS_CONNECT \<equiv> 0x01"
abbreviation (input) RFC_1928_COMMANDS_UDP_ASSOCIATE :: byte where "RFC_1928_COMMANDS_UDP_ASSOCIATE \<equiv> 0x03"

abbreviation (input) BASIC_AUTHENTICATION :: byte where "BASIC_AUTHENTICATION \<equiv> 0x02"
abbreviation (input) GSSAPI :: byte where "GSSAPI \<equiv> 0x01"
abbreviation (input) NO_ACCEPTABLE_METHODS :: byte where "NO_ACCEPTABLE_METHODS \<equiv> 0xff"
abbreviation (input) NO_AUTHENTICATION_REQUIRED :: byte where "NO_AUTHENTICATION_REQUIRED \<equiv> 0x00"

abbreviation (input) ADDRESS_TYPE_NOT_SUPPORTED :: byte where "ADDRESS_TYPE_NOT_SUPPORTED \<equiv> 0x08"
abbreviation (input) COMMAND_NOT_SUPPORTED :: byte where "COMMAND_NOT_SUPPORTED \<equiv> 0x07"
abbreviation (input) CONNECTION_NOT_ALLOWED :: byte where "CONNECTION_NOT_ALLOWED \<equiv> 0x02"
abbreviation (input) CONNECTION_REFUSED :: byte where "CONNECTION_REFUSED \<equiv> 0x05"
abbreviation (input) GENERAL_FAILURE :: byte where "GENERAL_FAILURE \<equiv> 0x01"
abbreviation (input) HOST_UNREACHABLE :: byte where "HOST_UNREACHABLE \<equiv> 0x04"
abbreviation (input) NETWORK_UNREACHABLE :: byte where "NETWORK_UNREACHABLE \<equiv> 0x03"
abbreviation (input) SUCCEEDED :: byte where "SUCCEEDED \<equiv> 0x00"
abbreviation (input) TTL_EXPIRED :: byte where "TTL_EXPIRED \<equiv> 0x06"

abbreviation (input) RFC_1928_VERSION :: byte where "RFC_1928_VERSION \<equiv> 0x05"

abbreviation (input) RFC_1929_REPLIES_GENERAL_FAILURE :: byte where "RFC_1929_REPLIES_GENERAL_FAILURE \<equiv> 0xff"
abbreviation (input) RFC_1929_REPLIES_SUCCEEDED :: byte where "RFC_1929_REPLIES_SUCCEEDED \<equiv> 0x00"

abbreviation (input) RFC_1929_VERSION :: byte where "RFC_1929_VERSION \<equiv> 0x01"


section \<open>Node buffers\<close>

text \<open>
  A Node \<open>Buffer\<close> is a list of bytes. The checked reads \<open>readUInt8\<close>,
  \<open>readUInt16BE\<close> and \<open>readUInt32BE\<close> throw a \<open>RangeError\<close> when the
  read does not fit in the buffer; \<open>subarray\<close> clamps both ends and never throws;
  an index expression \<open>buffer[i]\<close> is \<open>undefined\<close> out of range.
\<close>

datatype js_error = RangeError

definition readUInt8 :: "Buffer \<Rightarrow> nat \<Rightarrow> js_error + byte" where
  "readUInt8 b off = (if off + 1 \<le> length b then Inr (b ! off) else Inl RangeError)"

definition readUInt16BE :: "Buffer \<Rightarrow> nat \<Rightarrow> js_error + nat" where
  "readUInt16BE b off =
     (if off + 2 \<le> length b then Inr (unat (b ! off) * 256 + unat (b ! (off + 1)))
      else Inl RangeError)"

definition readUInt32BE :: "Buffer \<Rightarrow> nat \<Rightarrow> js_error + nat" where
  "readUInt32BE b off =
     (if off + 4 \<le> length b
      then Inr (unat (b ! off) * 16777216 + unat (b ! (off + 1)) * 65536
                + unat (b ! (off + 2)) * 256 + unat (b ! (off + 3)))
      else Inl RangeError)"

definition subarray :: "Buffer \<Rightarrow> nat \<Rightarrow> nat \<Rightarrow> Buffer" where
  "subarray b start stop = take (stop - start) (drop start b)"

definition index :: "Buffer \<Rightarrow> nat \<Rightarrow> byte option" where
  "index b i = (if i < length b then Some (b ! i) else None)"

text \<open>\<open>Buffer.toString()\<close>: the bytes as characters (the model keeps one character a byte).\<close>

definition toString :: "Buffer \<Rightarrow> string" where
  "toString b = map (\<lambda>x. char_of (unat x)) b"

text \<open>\<open>Number.prototype.toString(radix)\<close> on a non-negative integer, radix 10 or 16.\<close>

definition digit_char :: "nat \<Rightarrow> char" where
  "digit_char n = ''0123456789abcdefghijklmnopqrstuvwxyz'' ! n"

fun toStringRadix :: "nat \<Rightarrow> nat \<Rightarrow> string" where
  "toStringRadix r n =
     (if r < 2 \<or> n < r then [digit_char n]
      else toStringRadix r (n div r) @ [digit_char (n mod r)])"

fun join :: "string \<Rightarrow> string list \<Rightarrow> string" where
  "join sep [] = []"
| "join sep [x] = x"
| "join sep (x # y # ys) = x @ sep @ join sep (y # ys)"


section \<open>The positional reader (binary.ts)\<close>

record BinaryReader =
  buf :: Buffer
  pos :: nat

definition newBinaryReader :: "Buffer \<Rightarrow> BinaryReader" where
  "newBinaryReader buffer = \<lparr>buf = buffer, pos = 0\<rparr>"

definition word8 :: "BinaryReader \<Rightarrow> js_error + (byte \<times> BinaryReader)" where
  "word8 r =
     (case readUInt8 (buf r) (pos r) of
        Inl e \<Rightarrow> Inl e
      | Inr v \<Rightarrow> Inr (v, r\<lparr>pos := pos r + 1\<rparr>))"

definition word32be :: "BinaryReader \<Rightarrow> js_error + (nat \<times> BinaryReader)" where
  "word32be r =
     (case readUInt32BE (buf r) (pos r) of
        Inl e \<Rightarrow> Inl e
      | Inr v \<Rightarrow> Inr (v, r\<lparr>pos := pos r + 4\<rparr>))"

definition readBuffer :: "BinaryReader \<Rightarrow> nat \<Rightarrow> Buffer \<times> BinaryReader" where
  "readBuffer r len = (subarray (buf r) (pos r) (pos r + len), r\<lparr>pos := pos r + len\<rparr>)"

definition reader_remaining :: "BinaryReader \<Rightarrow> Buffer" where
  "reader_remaining r = drop (pos r) (buf r)"

record AuthRequest =
  auth_ver :: byte
  ulen :: byte
  uname :: Buffer
  plen :: byte
  passwd :: Buffer
  auth_requestBuffer :: Buffer

definition parseAuthRequest :: "Buffer \<Rightarrow> js_error + AuthRequest" where
  "parseAuthRequest buffer =
     (case word8 (newBinaryReader buffer) of
        Inl e \<Rightarrow> Inl e
      | Inr (v, r1) \<Rightarrow>
     (case word8 r1 of
        Inl e \<Rightarrow> Inl e
      | Inr (ul, r2) \<Rightarrow>
     (case readBuffer r2 (unat ul) of (un, r3) \<Rightarrow>
     (case word8 r3 of
        Inl e \<Rightarrow> Inl e
      | Inr (pl, r4) \<Rightarrow>
     (case readBuffer r4 (unat pl) of (pw, r5) \<Rightarrow>
        Inr \<lparr>auth_ver = v, ulen = ul, uname = un, plen = pl, passwd = pw,
             auth_requestBuffer = buffer\<rparr>)))))"

record ConnectRequest =
  ver :: byte
  cmd :: byte
  rsv :: byte
  atyp :: byte
  requestBuffer :: Buffer
  remaining :: Buffer

definition parseConnectRequest :: "Buffer \<Rightarrow> js_error + ConnectRequest" where
  "parseConnectRequest buffer =
     (case word8 (newBinaryReader buffer) of
        Inl e \<Rightarrow> Inl e
      | Inr (v, r1) \<Rightarrow>
     (case word8 r1 of
        Inl e \<Rightarrow> Inl e
      | Inr (c, r2) \<Rightarrow>
     (case word8 r2 of
        Inl e \<Rightarrow> Inl e
      | Inr (rs, r3) \<Rightarrow>
     (case word8 r3 of
        Inl e \<Rightarrow> Inl e
      | Inr (a, r4) \<Rightarrow>
        Inr \<lparr>ver = v, cmd = c, rsv = rs, atyp = a, requestBuffer = buffer,
             remaining = reader_remaining r4\<rparr>))))"

definition parseIPv4Address :: "Buffer \<Rightarrow> string" where
  "parseIPv4Address buffer = join ''.'' (map (\<lambda>b. toStringRadix 10 (unat b)) buffer)"

text \<open>The loop of \<open>parseIPv6Address\<close>: \<open>i\<close> counts the words still to read.\<close>

fun ipv6_parts :: "nat \<Rightarrow> BinaryReader \<Rightarrow> js_error + string list" where
  "ipv6_parts 0 r = Inr []"
| "ipv6_parts (Suc i) r =
     (case word32be r of
        Inl e \<Rightarrow> Inl e
      | Inr (v, r') \<Rightarrow>
          (case ipv6_parts i r' of
             Inl e \<Rightarrow> Inl e
           | Inr parts \<Rightarrow>
               Inr (toStringRadix 16 (v div 65536) # toStringRadix 16 (v mod 65536) # parts)))"

definition parseIPv6Address :: "Buffer \<Rightarrow> js_error + string" where
  "parseIPv6Address buffer =
     (case ipv6_parts 4 (newBinaryReader buffer) of
        Inl e \<Rightarrow> Inl e
      | Inr parts \<Rightarrow> Inr (join '':'' parts))"

definition parseDomainName :: "Buffer \<Rightarrow> js_error + (nat \<times> string)" where
  "parseDomainName buffer =
     (case word8 (newBinaryReader buffer) of
        Inl e \<Rightarrow> Inl e
      | Inr (sz, r1) \<Rightarrow> Inr (unat sz, toString (fst (readBuffer r1 (unat sz)))))"


section \<open>The session handlers of server.ts\<close>

text \<open>
  What a handler does to the world, in the order of the calls in the source. A
  \<open>socket.write(buffer, callback)\<close> is logged with what its callback does once the
  bytes are flushed: end the socket, arm \<open>socket.once("data", h)\<close>, or couple the
  two streams with \<open>pipe\<close>.
\<close>

datatype listener = Greeting | Authenticate | Connect | NoListener | Piped

datatype on_written = ThenEnd | ThenOnce listener | ThenPipe

datatype event =
    AUTHENTICATION string
  | AUTHENTICATION_ERROR string
  | CONNECTION_FILTER string nat
  | HANDSHAKE
  | PROXY_CONNECT string nat
  | PROXY_END byte
  | PROXY_ERROR

datatype action =
    Write Buffer on_written
  | EndWith Buffer
  | Emit event
  | Push
  | CallAuthenticate string string
  | CallFilter string nat string nat
  | CallFactory string nat
  | Forward Buffer

text \<open>
  The user's callbacks are parameters. \<open>authenticate\<close> and \<open>connectionFilter\<close>
  report through a \<open>done\<close> callback: called without an error, called with one, or never
  called. A socket factory returns a promise: resolved with a stream, rejected with an
  error (whose \<open>code\<close> is a string or absent), or never settled.
\<close>

datatype callback = DoneOk | DoneErr | DoneNever

datatype promise = Resolved | Rejected "string option" | Pending

record SocksServerOptions =
  opt_authenticate :: "(string \<Rightarrow> string \<Rightarrow> callback) option"
  opt_connectionFilter :: "(string \<times> nat \<Rightarrow> string \<times> nat \<Rightarrow> callback) option"
  opt_socketFactory :: "(string \<Rightarrow> nat \<Rightarrow> promise) option"

text \<open>\<open>createServer()\<close> without options: \<open>this.options = options || {}\<close>.\<close>

definition no_options :: SocksServerOptions where
  "no_options = \<lparr>opt_authenticate = None, opt_connectionFilter = None, opt_socketFactory = None\<rparr>"

text \<open>
  The factory in force: the configured one, else \<open>defaultSocketFactory\<close>, which is
  \<open>net.createConnection\<close> on the host (the parameter \<open>net\<close>).
\<close>

definition socketFactory_of ::
  "SocksServerOptions \<Rightarrow> (string \<Rightarrow> nat \<Rightarrow> promise) \<Rightarrow> string \<Rightarrow> nat \<Rightarrow> promise" where
  "socketFactory_of options net =
     (case opt_socketFactory options of Some factory \<Rightarrow> factory | None \<Rightarrow> net)"

text \<open>
  A handler returns the actions it performed and either the listener left armed on the
  socket or the exception it threw (the actions before the throw have happened).
\<close>

datatype outcome = Next listener | Throw js_error

type_synonym handled = "action list \<times> outcome"

text \<open>\<open>end(code, args)\<close> of server.ts: a fresh two-byte buffer, then \<open>socket.end()\<close>.\<close>

definition end_reply :: "byte \<Rightarrow> handled" where
  "end_reply code = ([Write [RFC_1928_VERSION, code] ThenEnd], Next NoListener)"

text \<open>
  The handler of the first \<open>data\<close> event (the greeting): the check of the frame, then
  the choice of a method among \<open>methods\<close>, the bytes from offset 2.
\<close>

definition select_method :: "SocksServerOptions \<Rightarrow> Buffer \<Rightarrow> handled" where
  "select_method options methods =
     (if BASIC_AUTHENTICATION \<in> set methods \<and> opt_authenticate options = None
      then end_reply GENERAL_FAILURE
      else if opt_authenticate options \<noteq> None \<and> BASIC_AUTHENTICATION \<in> set methods
      then ([Write [RFC_1928_VERSION, BASIC_AUTHENTICATION] (ThenOnce Authenticate)],
            Next Authenticate)
      else if opt_authenticate options = None \<and> NO_AUTHENTICATION_REQUIRED \<in> set methods
      then ([Write [RFC_1928_VERSION, NO_AUTHENTICATION_REQUIRED] (ThenOnce Connect)],
            Next Connect)
      else end_reply NO_ACCEPTABLE_METHODS)"

definition greeting :: "SocksServerOptions \<Rightarrow> Buffer \<Rightarrow> handled" where
  "greeting options buffer =
     (if index buffer 0 \<noteq> Some RFC_1928_VERSION then end_reply GENERAL_FAILURE
      else if map_option (\<lambda>b. int (unat b)) (index buffer 1) \<noteq> Some (int (length buffer) - 2)
      then end_reply GENERAL_FAILURE
      else select_method options (drop 2 buffer))"

definition authenticate :: "SocksServerOptions \<Rightarrow> Buffer \<Rightarrow> handled" where
  "authenticate options buffer =
     (case parseAuthRequest buffer of
        Inl e \<Rightarrow> ([], Throw e)
      | Inr request \<Rightarrow>
          if auth_ver request \<noteq> RFC_1929_VERSION
          then end_reply RFC_1929_REPLIES_GENERAL_FAILURE
          else
            (case opt_authenticate options of
               None \<Rightarrow> ([], Next NoListener)
             | Some f \<Rightarrow>
                 let u = toString (uname request); p = toString (passwd request) in
                 (case f u p of
                    DoneErr \<Rightarrow>
                      ([CallAuthenticate u p, Emit (AUTHENTICATION_ERROR u)]
                         @ fst (end_reply RFC_1929_REPLIES_GENERAL_FAILURE),
                       Next NoListener)
                  | DoneOk \<Rightarrow>
                      ([CallAuthenticate u p, Emit (AUTHENTICATION u),
                        Write [RFC_1929_VERSION, RFC_1929_REPLIES_SUCCEEDED] (ThenOnce Connect)],
                       Next Connect)
                  | DoneNever \<Rightarrow> ([CallAuthenticate u p], Next NoListener))))"

text \<open>
  The destination of a request (the \<open>if\<close> chain on \<open>atyp\<close> in \<open>connect\<close>):
  \<open>None\<close> for an unsupported address type, otherwise the address and port or the
  exception of a read that does not fit.
\<close>

definition destination :: "ConnectRequest \<Rightarrow> (js_error + string \<times> nat) option" where
  "destination request =
     (if atyp request = RFC_1928_ATYP_IPV4 then
        Some (case readUInt16BE (remaining request) 4 of
                Inl e \<Rightarrow> Inl e
              | Inr port \<Rightarrow> Inr (parseIPv4Address (subarray (remaining request) 0 4), port))
      else if atyp request = RFC_1928_ATYP_DOMAINNAME then
        Some (case parseDomainName (remaining request) of
                Inl e \<Rightarrow> Inl e
              | Inr (sz, addr) \<Rightarrow>
                  (case readUInt16BE (remaining request) (sz + 1) of
                     Inl e \<Rightarrow> Inl e
                   | Inr port \<Rightarrow> Inr (addr, port)))
      else if atyp request = RFC_1928_ATYP_IPV6 then
        Some (case parseIPv6Address (subarray (remaining request) 0 16) of
                Inl e \<Rightarrow> Inl e
              | Inr addr \<Rightarrow>
                  (case readUInt16BE (remaining request) 16 of
                     Inl e \<Rightarrow> Inl e
                   | Inr port \<Rightarrow> Inr (addr, port)))
      else None)"

text \<open>
  The success reply: an uninitialised buffer as long as the request, bytes 0 to 2
  set, the request copied over it from offset 3.
\<close>

definition successReply :: "Buffer \<Rightarrow> Buffer" where
  "successReply request =
     take (length request) [RFC_1928_VERSION, SUCCEEDED, 0x00] @ drop 3 request"

text \<open>The handler of the request frame.\<close>

definition connect ::
  "SocksServerOptions \<Rightarrow> (string \<Rightarrow> nat \<Rightarrow> promise) \<Rightarrow> Buffer \<Rightarrow> handled" where
  "connect options net buffer =
     (case parseConnectRequest buffer of
        Inl e \<Rightarrow> ([], Throw e)
      | Inr request \<Rightarrow>
          if ver request \<noteq> RFC_1928_VERSION then end_reply GENERAL_FAILURE
          else
            (case destination request of
               None \<Rightarrow> (Push # fst (end_reply ADDRESS_TYPE_NOT_SUPPORTED), Next NoListener)
             | Some (Inl e) \<Rightarrow> ([Push], Throw e)
             | Some (Inr (addr, port)) \<Rightarrow>
                 (case socketFactory_of options net addr port of
                    Resolved \<Rightarrow>
                      ([Push, CallFactory addr port,
                        Write (successReply (requestBuffer request)) ThenPipe],
                       Next Piped)
                  | Rejected err \<Rightarrow>
                      ([Push, CallFactory addr port] @ fst (end_reply GENERAL_FAILURE)
                         @ [Emit PROXY_ERROR],
                       Next NoListener)
                  | Pending \<Rightarrow> ([Push, CallFactory addr port], Next NoListener))))"


section \<open>Sessions and the server of server.ts\<close>

text \<open>
  A session is the socket of one accepted connection: the listener armed for its next
  \<open>data\<close> event, the actions performed so far (each with the handler that performed
  it), and the exceptions that escaped a handler. A handler is armed with \<open>once\<close>,
  so the listener is gone when it throws. A chunk that arrives while no listener is armed
  is dropped; after \<open>pipe\<close> it goes to the outbound stream.
\<close>

record session =
  armed :: listener
  log :: "(listener \<times> action) list"
  uncaught :: "js_error list"

definition accept :: session where
  "accept = \<lparr>armed = Greeting, log = [], uncaught = []\<rparr>"

definition dispatch ::
  "SocksServerOptions \<Rightarrow> (string \<Rightarrow> nat \<Rightarrow> promise) \<Rightarrow> listener \<Rightarrow> Buffer \<Rightarrow> handled" where
  "dispatch options net l buffer =
     (case l of
        Greeting \<Rightarrow> greeting options buffer
      | Authenticate \<Rightarrow> authenticate options buffer
      | Connect \<Rightarrow> connect options net buffer
      | NoListener \<Rightarrow> ([], Next NoListener)
      | Piped \<Rightarrow> ([Forward buffer], Next Piped))"

definition on_data ::
  "SocksServerOptions \<Rightarrow> (string \<Rightarrow> nat \<Rightarrow> promise) \<Rightarrow> session \<Rightarrow> Buffer \<Rightarrow> session" where
  "on_data options net s buffer =
     (case dispatch options net (armed s) buffer of
        (acts, Next l) \<Rightarrow> s\<lparr>armed := l, log := log s @ map (Pair (armed s)) acts\<rparr>
      | (acts, Throw e) \<Rightarrow>
          s\<lparr>armed := NoListener, log := log s @ map (Pair (armed s)) acts,
            uncaught := uncaught s @ [e]\<rparr>)"

fun feed ::
  "SocksServerOptions \<Rightarrow> (string \<Rightarrow> nat \<Rightarrow> promise) \<Rightarrow> session \<Rightarrow> Buffer list \<Rightarrow> session" where
  "feed options net s [] = s"
| "feed options net s (b # bs) = feed options net (on_data options net s b) bs"

text \<open>The replies a session has written: the handler, the bytes, the write's callback.\<close>

fun replies :: "(listener \<times> action) list \<Rightarrow> (listener \<times> Buffer \<times> on_written) list" where
  "replies [] = []"
| "replies ((l, Write b w) # xs) = (l, b, w) # replies xs"
| "replies (x # xs) = replies xs"

text \<open>
  The server: \<open>activeSessions\<close>, the sockets accepted so far (socket \<open>i\<close> is the
  \<open>i\<close>-th connection), the sockets whose client has gone away, and the sockets on which
  \<open>close\<close> has called \<open>end()\<close>.
\<close>

type_synonym socket = nat

record SocksServer =
  activeSessions :: "socket list"
  sockets :: "session list"
  disconnected :: "socket list"
  ended :: "socket list"

datatype server_event = Connection | Data socket Buffer | Disconnect socket | Close

definition newSocksServer :: SocksServer where
  "newSocksServer = \<lparr>activeSessions = [], sockets = [], disconnected = [], ended = []\<rparr>"

definition pushes :: "socket \<Rightarrow> (listener \<times> action) list \<Rightarrow> socket list" where
  "pushes sock xs = map (\<lambda>x. sock) (filter (\<lambda>x. snd x = Push) xs)"

definition server_step ::
  "SocksServerOptions \<Rightarrow> (string \<Rightarrow> nat \<Rightarrow> promise) \<Rightarrow> SocksServer \<Rightarrow> server_event
     \<Rightarrow> SocksServer" where
  "server_step options net srv ev =
     (case ev of
        Connection \<Rightarrow> srv\<lparr>sockets := sockets srv @ [accept]\<rparr>
      | Data sock buffer \<Rightarrow>
          if sock < length (sockets srv) \<and> sock \<notin> set (disconnected srv) then
            let s = sockets srv ! sock; s' = on_data options net s buffer in
            srv\<lparr>sockets := (sockets srv)[sock := s'],
                activeSessions := activeSessions srv @ pushes sock (drop (length (log s)) (log s'))\<rparr>
          else srv
      | Disconnect sock \<Rightarrow> srv\<lparr>disconnected := disconnected srv @ [sock]\<rparr>
      | Close \<Rightarrow> srv\<lparr>ended := ended srv @ activeSessions srv\<rparr>)"

fun server_run ::
  "SocksServerOptions \<Rightarrow> (string \<Rightarrow> nat \<Rightarrow> promise) \<Rightarrow> SocksServer \<Rightarrow> server_event list
     \<Rightarrow> SocksServer" where
  "server_run options net srv [] = srv"
| "server_run options net srv (ev # evs) = server_run options net (server_step options net srv ev) evs"


section \<open>The session handlers of the implementation on the binary package\<close>

text \<open>
  The older server source parses with the declarative chain of the \<open>binary\<close> package
  (\<open>word8\<close>, \<open>buffer\<close>, \<open>word16bu\<close>, \<open>word32be\<close>, \<open>tap\<close>), which is not
  part of the repository. Its handlers are modelled on the frames on which every field the
  chain names finds its bytes, the version is right and the address type is one of the
  three; there each handler replies at most once. Outside, the result is \<open>None\<close>:
  not modelled (what the chain yields on a short frame is the package's business, and after
  an early \<open>return end(...)\<close> in the first \<open>tap\<close> of \<open>connect\<close> the chain still
  runs its second).
\<close>

definition field :: "Buffer \<Rightarrow> nat \<Rightarrow> nat \<Rightarrow> Buffer option" where
  "field b off n = (if off + n \<le> length b then Some (take n (drop off b)) else None)"

text \<open>
  \<open>end(response, args)\<close>: the request buffer itself when the handler has captured one
  (byte 1 overwritten), else a fresh two-byte buffer; \<open>socket.end(responseBuffer)\<close>.
\<close>

definition legacy_end :: "byte \<Rightarrow> Buffer option \<Rightarrow> action list" where
  "legacy_end response args_requestBuffer =
     [EndWith (case args_requestBuffer of
                 None \<Rightarrow> [RFC_1928_VERSION, response]
               | Some b \<Rightarrow> b[1 := response]),
      Emit (PROXY_END response)]"

definition legacy_handshake :: "SocksServerOptions \<Rightarrow> Buffer \<Rightarrow> handled option" where
  "legacy_handshake options buffer =
     (case index buffer 0 of None \<Rightarrow> None | Some v \<Rightarrow>
     (case index buffer 1 of None \<Rightarrow> None | Some nmethods \<Rightarrow>
     (case field buffer 2 (unat nmethods) of None \<Rightarrow> None | Some methods \<Rightarrow>
        Some
         (if v \<noteq> RFC_1928_VERSION then (legacy_end GENERAL_FAILURE None, Next NoListener)
          else
            let basicAuth = (opt_authenticate options \<noteq> None);
                noAuth = (\<not> basicAuth \<and> NO_AUTHENTICATION_REQUIRED \<in> set methods)
            in
            if basicAuth then
              ([Write [RFC_1928_VERSION, BASIC_AUTHENTICATION] (ThenOnce Authenticate),
                Emit HANDSHAKE],
               Next Authenticate)
            else if \<not> basicAuth \<and> noAuth then
              ([Write [RFC_1928_VERSION, NO_AUTHENTICATION_REQUIRED] (ThenOnce Connect),
                Emit HANDSHAKE],
               Next Connect)
            else (legacy_end NO_ACCEPTABLE_METHODS None, Next NoListener)))))"

definition legacy_authenticate :: "SocksServerOptions \<Rightarrow> Buffer \<Rightarrow> handled option" where
  "legacy_authenticate options buffer =
     (case index buffer 0 of None \<Rightarrow> None | Some v \<Rightarrow>
     (case index buffer 1 of None \<Rightarrow> None | Some ul \<Rightarrow>
     (case field buffer 2 (unat ul) of None \<Rightarrow> None | Some un \<Rightarrow>
     (case index buffer (2 + unat ul) of None \<Rightarrow> None | Some pl \<Rightarrow>
     (case field buffer (3 + unat ul) (unat pl) of None \<Rightarrow> None | Some pw \<Rightarrow>
        Some
         (if v \<noteq> RFC_1929_VERSION
          then (legacy_end RFC_1929_REPLIES_GENERAL_FAILURE (Some buffer), Next NoListener)
          else
            (case opt_authenticate options of
               None \<Rightarrow> ([], Next NoListener)
             | Some f \<Rightarrow>
                 let u = toString un; p = toString pw in
                 (case f u p of
                    DoneErr \<Rightarrow>
                      ([CallAuthenticate u p, Emit (AUTHENTICATION_ERROR u)]
                         @ legacy_end RFC_1929_REPLIES_GENERAL_FAILURE (Some buffer),
                       Next NoListener)
                  | DoneOk \<Rightarrow>
                      ([CallAuthenticate u p, Emit (AUTHENTICATION u),
                        Write [RFC_1929_VERSION, RFC_1929_REPLIES_SUCCEEDED] (ThenOnce Connect)],
                       Next Connect)
                  | DoneNever \<Rightarrow> ([CallAuthenticate u p], Next NoListener)))))))))"

text \<open>The address of the request and the offset of the port after it, by \<open>atyp\<close>.\<close>

definition legacy_address :: "Buffer \<Rightarrow> byte \<Rightarrow> (string \<times> nat) option" where
  "legacy_address buffer a =
     (if a = RFC_1928_ATYP_IPV4 then
        (case field buffer 4 4 of
           None \<Rightarrow> None
         | Some b \<Rightarrow> Some (join ''.'' (map (\<lambda>x. toStringRadix 10 (unat x)) b), 8))
      else if a = RFC_1928_ATYP_DOMAINNAME then
        (case index buffer 4 of
           None \<Rightarrow> None
         | Some sz \<Rightarrow>
             (case field buffer 5 (unat sz) of
                None \<Rightarrow> None
              | Some b \<Rightarrow> Some (toString b, 5 + unat sz)))
      else if a = RFC_1928_ATYP_IPV6 then
        (case field buffer 4 16 of
           None \<Rightarrow> None
         | Some b \<Rightarrow>
             (case ipv6_parts 4 (newBinaryReader b) of
                Inl e \<Rightarrow> None
              | Inr parts \<Rightarrow> Some (join '':'' parts, 20)))
      else None)"

text \<open>The reply code for a rejected outbound connection, by the error's \<open>code\<close>.\<close>

definition legacy_reply_for :: "string option \<Rightarrow> byte" where
  "legacy_reply_for code =
     (if code = Some ''EADDRNOTAVAIL'' then HOST_UNREACHABLE
      else if code = Some ''ECONNREFUSED'' then CONNECTION_REFUSED
      else NETWORK_UNREACHABLE)"

definition legacy_outbound ::
  "SocksServerOptions \<Rightarrow> (string \<Rightarrow> nat \<Rightarrow> promise) \<Rightarrow> Buffer \<Rightarrow> string \<Rightarrow> nat \<Rightarrow> handled" where
  "legacy_outbound options net buffer addr port =
     (case socketFactory_of options net addr port of
        Resolved \<Rightarrow>
          ([CallFactory addr port, Emit (PROXY_CONNECT addr port), Emit (PROXY_CONNECT addr port),
            Write (buffer[1 := SUCCEEDED]) ThenPipe],
           Next Piped)
      | Rejected err \<Rightarrow>
          ([CallFactory addr port, Emit PROXY_ERROR]
             @ legacy_end (legacy_reply_for err) (Some buffer),
           Next NoListener)
      | Pending \<Rightarrow> ([CallFactory addr port], Next NoListener))"

definition legacy_connect ::
  "SocksServerOptions \<Rightarrow> (string \<Rightarrow> nat \<Rightarrow> promise) \<Rightarrow> string \<times> nat \<Rightarrow> Buffer
     \<Rightarrow> handled option" where
  "legacy_connect options net origin buffer =
     (case field buffer 0 4 of None \<Rightarrow> None | Some hd4 \<Rightarrow>
        if hd4 ! 0 \<noteq> RFC_1928_VERSION then None
        else
     (case legacy_address buffer (hd4 ! 3) of None \<Rightarrow> None | Some (addr, off) \<Rightarrow>
     (case field buffer off 2 of None \<Rightarrow> None | Some pb \<Rightarrow>
        let port = unat (pb ! 0) * 256 + unat (pb ! 1) in
        Some
         (if hd4 ! 1 = RFC_1928_COMMANDS_CONNECT then
            (case opt_connectionFilter options of
               None \<Rightarrow>
                 (case legacy_outbound options net buffer addr port of
                    (acts, out) \<Rightarrow> (Push # acts, out))
             | Some connectionFilter \<Rightarrow>
                 (case connectionFilter (addr, port) origin of
                    DoneErr \<Rightarrow>
                      ([Push, CallFilter addr port (fst origin) (snd origin),
                        Emit (CONNECTION_FILTER addr port)]
                         @ legacy_end CONNECTION_NOT_ALLOWED (Some buffer),
                       Next NoListener)
                  | DoneOk \<Rightarrow>
                      (case legacy_outbound options net buffer addr port of
                         (acts, out) \<Rightarrow>
                           (Push # CallFilter addr port (fst origin) (snd origin) # acts, out))
                  | DoneNever \<Rightarrow>
                      ([Push, CallFilter addr port (fst origin) (snd origin)], Next NoListener)))
          else (Push # legacy_end SUCCEEDED (Some buffer), Next NoListener)))))"


section \<open>The frames of a session\<close>

text \<open>
  The shape of the replies of a session by the listener it has armed: none before the
  greeting, the method reply that asked for credentials while \<open>authenticate\<close> is armed,
  the method reply and perhaps the authentication reply while \<open>connect\<close> is armed; each
  of these kept the socket open. Once no handler is armed the replies are one from the
  greeting, then at most one from \<open>authenticate\<close>, then at most one from
  \<open>connect\<close>, and only the last may have ended the socket.
\<close>

definition framed_done :: "(listener \<times> Buffer \<times> on_written) list \<Rightarrow> bool" where
  "framed_done rs =
     (map fst rs \<in> {[Greeting], [Greeting, Authenticate], [Greeting, Connect],
                     [Greeting, Authenticate, Connect]}
      \<and> ThenEnd \<notin> set (map (snd \<circ> snd) (butlast rs)))"

fun framed :: "listener \<Rightarrow> (listener \<times> Buffer \<times> on_written) list \<Rightarrow> bool" where
  "framed Greeting rs = (rs = [])"
| "framed Authenticate rs = (\<exists>b. rs = [(Greeting, b, ThenOnce Authenticate)])"
| "framed Connect rs =
     ((\<exists>b. rs = [(Greeting, b, ThenOnce Connect)])
      \<or> (\<exists>b b'. rs = [(Greeting, b, ThenOnce Authenticate),
                        (Authenticate, b', ThenOnce Connect)]))"
| "framed NoListener rs = framed_done rs"
| "framed Piped rs = framed_done rs"


section \<open>What the client sees of a handler's actions\<close>

text \<open>
  The buffers sent to the client, in order (\<open>socket.write\<close> and
  \<open>socket.end(buffer)\<close>), and the actions that end the socket.
\<close>

fun wire :: "action list \<Rightarrow> Buffer list" where
  "wire [] = []"
| "wire (Write b w # xs) = b # wire xs"
| "wire (EndWith b # xs) = b # wire xs"
| "wire (x # xs) = wire xs"

fun closing :: "action \<Rightarrow> bool" where
  "closing (Write b ThenEnd) = True"
| "closing (EndWith b) = True"
| "closing x = False"


section \<open>Properties\<close>

subsection \<open>The connection filter\<close>

lemma socketFactory_of_connectionFilter:
  "socketFactory_of (options\<lparr>opt_connectionFilter := flt\<rparr>) net = socketFactory_of options net"
  by (simp add: socketFactory_of_def)

lemma connect_ignores_connectionFilter:
  "connect (options\<lparr>opt_connectionFilter := flt\<rparr>) net buffer = connect options net buffer"
  unfolding connect_def socketFactory_of_connectionFilter by (rule refl)

text \<open>
  C3. A configured connection filter is to be called before the factory, and its
  rejection answered with CONNECTION_NOT_ALLOWED without a call of the factory. The handler
  on the binary package does so; \<open>connect\<close> of server.ts never reads
  \<open>options.connectionFilter\<close>. With a filter that rejects every destination, a CONNECT
  to 127.0.0.1:80 from 10.0.0.9:5555 calls the factory and is answered SUCCEEDED by
  server.ts, while the older handler calls the filter, replies 0x02 and ends the socket.
\<close>

theorem connection_filter_not_consulted:
  "connect (no_options\<lparr>opt_connectionFilter := Some (\<lambda>d og. DoneErr)\<rparr>) (\<lambda>a p. Resolved)
       [0x05, 0x01, 0x00, 0x01, 127, 0, 0, 1, 0, 80]
     = ([Push, CallFactory ''127.0.0.1'' 80,
         Write [0x05, 0x00, 0x00, 0x01, 127, 0, 0, 1, 0, 80] ThenPipe], Next Piped)
   \<and> legacy_connect (no_options\<lparr>opt_connectionFilter := Some (\<lambda>d og. DoneErr)\<rparr>)
         (\<lambda>a p. Resolved) (''10.0.0.9'', 5555) [0x05, 0x01, 0x00, 0x01, 127, 0, 0, 1, 0, 80]
     = Some ([Push, CallFilter ''127.0.0.1'' 80 ''10.0.0.9'' 5555,
              Emit (CONNECTION_FILTER ''127.0.0.1'' 80),
              EndWith [0x05, 0x02, 0x00, 0x01, 127, 0, 0, 1, 0, 80], Emit (PROXY_END 0x02)],
             Next NoListener)"
  by code_simp


subsection \<open>The reply to rejected credentials\<close>

lemma authenticate_rejected_reply:
  assumes "parseAuthRequest buffer = Inr request"
    and "auth_ver request = RFC_1929_VERSION"
    and "opt_authenticate options = Some f"
    and "f (toString (uname request)) (toString (passwd request)) = DoneErr"
  shows "wire (fst (authenticate options buffer)) = [[RFC_1928_VERSION, 0xff]]"
  using assms by (simp add: authenticate_def end_reply_def Let_def)

text \<open>
  C5. Rejected credentials are to be answered with the two bytes 0x01 0xFF and a close.
  With an \<open>authenticate\<close> callback that rejects, the request 01 01 61 01 62 (user
  \<open>a\<close>, password \<open>b\<close>) makes server.ts write 05 FF (\<open>end\<close> puts the protocol
  version 5 in byte 0, where the success reply of the same handler puts the
  sub-negotiation version 1), and makes the older handler send the whole request buffer
  back with byte 1 overwritten: 01 FF 61 01 62.
\<close>

theorem rejected_credentials_reply:
  "authenticate (no_options\<lparr>opt_authenticate := Some (\<lambda>u p. DoneErr)\<rparr>)
       [0x01, 0x01, 0x61, 0x01, 0x62]
     = ([CallAuthenticate ''a'' ''b'', Emit (AUTHENTICATION_ERROR ''a''),
         Write [0x05, 0xff] ThenEnd], Next NoListener)
   \<and> legacy_authenticate (no_options\<lparr>opt_authenticate := Some (\<lambda>u p. DoneErr)\<rparr>)
         [0x01, 0x01, 0x61, 0x01, 0x62]
     = Some ([CallAuthenticate ''a'' ''b'', Emit (AUTHENTICATION_ERROR ''a''),
              EndWith [0x01, 0xff, 0x61, 0x01, 0x62], Emit (PROXY_END 0xff)], Next NoListener)"
  by code_simp


subsection \<open>Truncated frames\<close>

text \<open>
  C6. The decoders and the session step are to be total, with no exception escaping the
  session handler. The reads of binary.ts are the checked reads of the buffer: a
  one-byte authentication frame and a three-byte request make \<open>parseAuthRequest\<close> and
  \<open>parseConnectRequest\<close> throw, and the request 05 01 00 01 (cut after the address
  type) makes \<open>connect\<close> throw from \<open>readUInt16BE\<close> after the socket has been
  pushed on \<open>activeSessions\<close>. Nothing catches it: after the greeting 05 01 00 the
  session ends with the exception uncaught and no reply to the request.
\<close>

theorem truncated_frames_throw:
  "parseAuthRequest [0x01] = Inl RangeError
   \<and> parseConnectRequest [0x05, 0x01, 0x00] = Inl RangeError
   \<and> connect no_options (\<lambda>a p. Resolved) [0x05, 0x01, 0x00, 0x01] = ([Push], Throw RangeError)
   \<and> feed no_options (\<lambda>a p. Resolved) accept [[0x05, 0x01, 0x00], [0x05, 0x01, 0x00, 0x01]]
       = \<lparr>armed = NoListener,
          log = [(Greeting, Write [0x05, 0x00] (ThenOnce Connect)), (Connect, Push)],
          uncaught = [RangeError]\<rparr>"
  by code_simp


subsection \<open>The proxyConnect event\<close>

lemma connect_never_emits_proxyConnect:
  "Emit (PROXY_CONNECT a p) \<notin> set (fst (connect options net buffer))"
  by (simp add: connect_def end_reply_def split: sum.splits option.splits promise.splits)

lemma legacy_connect_emits_proxyConnect_twice:
  assumes "legacy_connect options net origin buffer = Some (acts, Next Piped)"
  shows "\<exists>a p. filter (\<lambda>x. \<exists>a p. x = Emit (PROXY_CONNECT a p)) acts
                 = [Emit (PROXY_CONNECT a p), Emit (PROXY_CONNECT a p)]"
  using assms
  by (auto simp add: legacy_connect_def legacy_outbound_def legacy_end_def Let_def
      split: option.splits if_splits prod.splits callback.splits promise.splits)

text \<open>
  C9. A resolved factory is to be followed by exactly one \<open>proxyConnect\<close> event. On a
  CONNECT to 127.0.0.1:80 with a factory that resolves, server.ts emits none (it emits no
  event on this path at all), and the older handler emits two.
\<close>

theorem proxyConnect_emissions:
  "connect no_options (\<lambda>a p. Resolved) [0x05, 0x01, 0x00, 0x01, 127, 0, 0, 1, 0, 80]
     = ([Push, CallFactory ''127.0.0.1'' 80,
         Write [0x05, 0x00, 0x00, 0x01, 127, 0, 0, 1, 0, 80] ThenPipe], Next Piped)
   \<and> legacy_connect no_options (\<lambda>a p. Resolved) (''10.0.0.9'', 5555)
         [0x05, 0x01, 0x00, 0x01, 127, 0, 0, 1, 0, 80]
     = Some ([Push, CallFactory ''127.0.0.1'' 80, Emit (PROXY_CONNECT ''127.0.0.1'' 80),
              Emit (PROXY_CONNECT ''127.0.0.1'' 80),
              Write [0x05, 0x00, 0x00, 0x01, 127, 0, 0, 1, 0, 80] ThenPipe], Next Piped)"
  by code_simp


subsection \<open>The greeting\<close>

lemma exact_length:
  "(map_option (\<lambda>b. int (unat b)) (index buffer 1) = Some (int (length buffer) - 2))
     = (length buffer = 2 + unat (buffer ! 1))"
proof (cases "1 < length buffer")
  case True
  have "(int (unat (buffer ! 1)) = int (length buffer) - 2)
          = (length buffer = 2 + unat (buffer ! 1))"
    using True by arith
  with True show ?thesis unfolding index_def by (simp only: if_True option.map option.inject)
next
  case False
  then show ?thesis unfolding index_def by auto
qed

lemma greeting_decoded:
  assumes "index buffer 0 = Some RFC_1928_VERSION" and "length buffer = 2 + unat (buffer ! 1)"
  shows "greeting options buffer = select_method options (drop 2 buffer)"
  using assms unfolding greeting_def exact_length by simp

lemma greeting_malformed:
  assumes "\<not> (index buffer 0 = Some RFC_1928_VERSION \<and> length buffer = 2 + unat (buffer ! 1))"
  shows "greeting options buffer = end_reply GENERAL_FAILURE"
  using assms unfolding greeting_def exact_length by auto

text \<open>
  C8, as the code has it. The greeting is accepted when byte 0 is 5 and the buffer is
  exactly \<open>2 + buffer[1]\<close> bytes long; the methods offered are then the
  \<open>buffer[1]\<close> bytes from offset 2 and the handler goes on to choose among them. Every
  other buffer, a longer one included, is answered 05 01 and the socket is ended.
\<close>

theorem greeting_accepts_exact_length:
  "(index buffer 0 = Some RFC_1928_VERSION \<and> length buffer = 2 + unat (buffer ! 1)
      \<longrightarrow> greeting options buffer
            = select_method options (take (unat (buffer ! 1)) (drop 2 buffer)))
   \<and> (\<not> (index buffer 0 = Some RFC_1928_VERSION \<and> length buffer = 2 + unat (buffer ! 1))
      \<longrightarrow> greeting options buffer = ([Write [0x05, 0x01] ThenEnd], Next NoListener))"
  using greeting_decoded [of buffer options] greeting_malformed [of buffer options]
  by (auto simp add: end_reply_def)

theorem greeting_accepts_exact_length_witness:
  "index [0x05, 0x01, 0x00 :: byte] 0 = Some RFC_1928_VERSION
   \<and> length [0x05, 0x01, 0x00 :: byte] = 2 + unat ([0x05, 0x01, 0x00 :: byte] ! 1)
   \<and> greeting no_options [0x05, 0x01, 0x00] = select_method no_options [0x00]
   \<and> select_method no_options [0x00] = ([Write [0x05, 0x00] (ThenOnce Connect)], Next Connect)
   \<and> \<not> (index [0x05 :: byte] 0 = Some RFC_1928_VERSION
          \<and> length [0x05 :: byte] = 2 + unat ([0x05 :: byte] ! 1))
   \<and> greeting no_options [0x05] = ([Write [0x05, 0x01] ThenEnd], Next NoListener)"
  using greeting_accepts_exact_length [of "[0x05, 0x01, 0x00]" no_options]
    greeting_accepts_exact_length [of "[0x05]" no_options]
  by (simp add: index_def select_method_def no_options_def)

text \<open>
  C8 as stated fails on a greeting longer than \<open>2 + buffer[1]\<close>: 05 01 00 00 has
  version 5 and four bytes, one more than \<open>2 + 1\<close>; it is answered 05 01 and ended,
  although the one method it offers (NO_AUTH) is the one a server without
  \<open>authenticate\<close> selects.
\<close>

theorem greeting_longer_than_declared_rejected:
  "index [0x05, 0x01, 0x00, 0x00 :: byte] 0 = Some 0x05
   \<and> 2 + unat ([0x05, 0x01, 0x00, 0x00 :: byte] ! 1) \<le> length [0x05, 0x01, 0x00, 0x00 :: byte]
   \<and> greeting no_options [0x05, 0x01, 0x00, 0x00] = ([Write [0x05, 0x01] ThenEnd], Next NoListener)
   \<and> select_method no_options
         (take (unat ([0x05, 0x01, 0x00, 0x00 :: byte] ! 1)) (drop 2 [0x05, 0x01, 0x00, 0x00]))
       = ([Write [0x05, 0x00] (ThenOnce Connect)], Next Connect)"
  by (simp add: index_def greeting_def select_method_def no_options_def end_reply_def)


subsection \<open>Method selection\<close>

lemma legacy_handshake_frame:
  assumes "legacy_handshake options buffer = Some r"
  shows "2 + unat (buffer ! 1) \<le> length buffer"
  using assms
  by (auto simp add: legacy_handshake_def index_def field_def split: if_splits option.splits)

lemma legacy_handshake_selected:
  assumes "legacy_handshake options buffer = Some r" and "buffer ! 0 = RFC_1928_VERSION"
  shows "r = (if opt_authenticate options \<noteq> None
              then ([Write [0x05, 0x02] (ThenOnce Authenticate), Emit HANDSHAKE],
                    Next Authenticate)
              else if NO_AUTHENTICATION_REQUIRED \<in> set (take (unat (buffer ! 1)) (drop 2 buffer))
              then ([Write [0x05, 0x00] (ThenOnce Connect), Emit HANDSHAKE], Next Connect)
              else ([EndWith [0x05, 0xff], Emit (PROXY_END 0xff)], Next NoListener))"
  using assms
  by (auto simp add: legacy_handshake_def index_def field_def legacy_end_def Let_def
      split: if_splits option.splits)

text \<open>
  C4, as the code has it. For a greeting that server.ts accepts, with \<open>M\<close> the methods
  from offset 2: with an \<open>authenticate\<close> callback the reply is 05 02 when 0x02 is in
  \<open>M\<close> and otherwise 05 FF and the socket is ended; without one, a greeting that offers
  0x02 is answered 05 01 and ended (the guard for a missing \<open>authenticate\<close>), otherwise
  the reply is 05 00 when 0x00 is in \<open>M\<close> and else 05 FF and the socket is ended. The
  session goes on only after 05 00 or 05 02. The older handler, on a version-5 greeting
  that holds its \<open>nmethods\<close> methods, replies 05 02 when it has an \<open>authenticate\<close>
  callback and 0x02 is offered; without the callback it replies 05 00 when 0x00 is
  offered and else ends the socket with 05 FF.
\<close>

theorem method_selection:
  "(index buffer 0 = Some RFC_1928_VERSION \<and> length buffer = 2 + unat (buffer ! 1) \<longrightarrow>
      greeting options buffer =
        (if opt_authenticate options \<noteq> None then
           (if BASIC_AUTHENTICATION \<in> set (drop 2 buffer)
            then ([Write [0x05, 0x02] (ThenOnce Authenticate)], Next Authenticate)
            else ([Write [0x05, 0xff] ThenEnd], Next NoListener))
         else
           (if BASIC_AUTHENTICATION \<in> set (drop 2 buffer)
            then ([Write [0x05, 0x01] ThenEnd], Next NoListener)
            else if NO_AUTHENTICATION_REQUIRED \<in> set (drop 2 buffer)
            then ([Write [0x05, 0x00] (ThenOnce Connect)], Next Connect)
            else ([Write [0x05, 0xff] ThenEnd], Next NoListener))))
   \<and> (snd (greeting options buffer) \<noteq> Next NoListener \<longrightarrow>
        greeting options buffer = ([Write [0x05, 0x02] (ThenOnce Authenticate)], Next Authenticate)
        \<or> greeting options buffer = ([Write [0x05, 0x00] (ThenOnce Connect)], Next Connect))
   \<and> (legacy_handshake options buffer = Some r \<and> buffer ! 0 = RFC_1928_VERSION
        \<and> opt_authenticate options = None \<longrightarrow>
        r = (if NO_AUTHENTICATION_REQUIRED \<in> set (take (unat (buffer ! 1)) (drop 2 buffer))
             then ([Write [0x05, 0x00] (ThenOnce Connect), Emit HANDSHAKE], Next Connect)
             else ([EndWith [0x05, 0xff], Emit (PROXY_END 0xff)], Next NoListener)))
   \<and> (legacy_handshake options buffer = Some r \<and> buffer ! 0 = RFC_1928_VERSION
        \<and> opt_authenticate options \<noteq> None
        \<and> BASIC_AUTHENTICATION \<in> set (take (unat (buffer ! 1)) (drop 2 buffer)) \<longrightarrow>
        r = ([Write [0x05, 0x02] (ThenOnce Authenticate), Emit HANDSHAKE], Next Authenticate))"
proof (intro conjI impI)
  assume "index buffer 0 = Some RFC_1928_VERSION \<and> length buffer = 2 + unat (buffer ! 1)"
  then have "greeting options buffer = select_method options (drop 2 buffer)"
    by (simp add: greeting_decoded)
  then show "greeting options buffer =
        (if opt_authenticate options \<noteq> None then
           (if BASIC_AUTHENTICATION \<in> set (drop 2 buffer)
            then ([Write [0x05, 0x02] (ThenOnce Authenticate)], Next Authenticate)
            else ([Write [0x05, 0xff] ThenEnd], Next NoListener))
         else
           (if BASIC_AUTHENTICATION \<in> set (drop 2 buffer)
            then ([Write [0x05, 0x01] ThenEnd], Next NoListener)
            else if NO_AUTHENTICATION_REQUIRED \<in> set (drop 2 buffer)
            then ([Write [0x05, 0x00] (ThenOnce Connect)], Next Connect)
            else ([Write [0x05, 0xff] ThenEnd], Next NoListener)))"
    by (simp add: select_method_def end_reply_def)
next
  assume "snd (greeting options buffer) \<noteq> Next NoListener"
  then show "greeting options buffer
                = ([Write [0x05, 0x02] (ThenOnce Authenticate)], Next Authenticate)
             \<or> greeting options buffer = ([Write [0x05, 0x00] (ThenOnce Connect)], Next Connect)"
    by (simp add: greeting_def select_method_def end_reply_def split: if_splits)
next
  assume "legacy_handshake options buffer = Some r \<and> buffer ! 0 = RFC_1928_VERSION
            \<and> opt_authenticate options = None"
  then show "r = (if NO_AUTHENTICATION_REQUIRED \<in> set (take (unat (buffer ! 1)) (drop 2 buffer))
             then ([Write [0x05, 0x00] (ThenOnce Connect), Emit HANDSHAKE], Next Connect)
             else ([EndWith [0x05, 0xff], Emit (PROXY_END 0xff)], Next NoListener))"
    using legacy_handshake_selected [of options buffer r] by simp
next
  assume "legacy_handshake options buffer = Some r \<and> buffer ! 0 = RFC_1928_VERSION
            \<and> opt_authenticate options \<noteq> None
            \<and> BASIC_AUTHENTICATION \<in> set (take (unat (buffer ! 1)) (drop 2 buffer))"
  then show "r = ([Write [0x05, 0x02] (ThenOnce Authenticate), Emit HANDSHAKE], Next Authenticate)"
    using legacy_handshake_selected [of options buffer r] by simp
qed

theorem method_selection_witness:
  "index [0x05, 0x02, 0x00, 0x02 :: byte] 0 = Some RFC_1928_VERSION
   \<and> length [0x05, 0x02, 0x00, 0x02 :: byte] = 2 + unat ([0x05, 0x02, 0x00, 0x02 :: byte] ! 1)
   \<and> greeting (no_options\<lparr>opt_authenticate := Some (\<lambda>u p. DoneOk)\<rparr>) [0x05, 0x02, 0x00, 0x02]
       = ([Write [0x05, 0x02] (ThenOnce Authenticate)], Next Authenticate)
   \<and> snd (greeting (no_options\<lparr>opt_authenticate := Some (\<lambda>u p. DoneOk)\<rparr>)
            [0x05, 0x02, 0x00, 0x02]) \<noteq> Next NoListener
   \<and> legacy_handshake (no_options\<lparr>opt_authenticate := Some (\<lambda>u p. DoneOk)\<rparr>)
        [0x05, 0x02, 0x00, 0x02]
       = Some ([Write [0x05, 0x02] (ThenOnce Authenticate), Emit HANDSHAKE], Next Authenticate)
   \<and> opt_authenticate (no_options\<lparr>opt_authenticate := Some (\<lambda>u p. DoneOk)\<rparr>) \<noteq> None
   \<and> BASIC_AUTHENTICATION \<in> set (take (unat ([0x05, 0x02, 0x00, 0x02 :: byte] ! 1))
                                      (drop 2 [0x05, 0x02, 0x00, 0x02]))
   \<and> legacy_handshake no_options [0x05, 0x01, 0x01]
       = Some ([EndWith [0x05, 0xff], Emit (PROXY_END 0xff)], Next NoListener)
   \<and> opt_authenticate no_options = None"
proof -
  have h1: "legacy_handshake (no_options\<lparr>opt_authenticate := Some (\<lambda>u p. DoneOk)\<rparr>)
              [0x05, 0x02, 0x00, 0x02]
            = Some ([Write [0x05, 0x02] (ThenOnce Authenticate), Emit HANDSHAKE],
                    Next Authenticate)"
    by code_simp
  have h2: "legacy_handshake no_options [0x05, 0x01, 0x01]
            = Some ([EndWith [0x05, 0xff], Emit (PROXY_END 0xff)], Next NoListener)"
    by code_simp
  show ?thesis
    using h1 h2
      method_selection [of "[0x05, 0x02, 0x00, 0x02]"
        "no_options\<lparr>opt_authenticate := Some (\<lambda>u p. DoneOk)\<rparr>"
        "([Write [0x05, 0x02] (ThenOnce Authenticate), Emit HANDSHAKE], Next Authenticate)"]
      method_selection [of "[0x05, 0x01, 0x01]" no_options
        "([EndWith [0x05, 0xff], Emit (PROXY_END 0xff)], Next NoListener)"]
    by (simp add: index_def no_options_def)
qed

text \<open>
  C4 as stated fails on a server without \<open>authenticate\<close> when the client offers both
  NO_AUTH and USER_PASS: the greeting 05 02 00 02 is accepted, 0x00 is among its methods,
  and the reply is 05 01 with the socket ended, not 05 00.
\<close>

theorem offer_of_user_pass_without_authenticate:
  "index [0x05, 0x02, 0x00, 0x02 :: byte] 0 = Some RFC_1928_VERSION
   \<and> length [0x05, 0x02, 0x00, 0x02 :: byte] = 2 + unat ([0x05, 0x02, 0x00, 0x02 :: byte] ! 1)
   \<and> NO_AUTHENTICATION_REQUIRED \<in> set (drop 2 [0x05, 0x02, 0x00, 0x02 :: byte])
   \<and> opt_authenticate no_options = None
   \<and> greeting no_options [0x05, 0x02, 0x00, 0x02] = ([Write [0x05, 0x01] ThenEnd], Next NoListener)"
  by (simp add: index_def greeting_def select_method_def no_options_def end_reply_def)


subsection \<open>Commands other than CONNECT\<close>

lemma parseConnectRequest_long:
  assumes "4 \<le> length buffer"
  shows "parseConnectRequest buffer
           = Inr \<lparr>ver = buffer ! 0, cmd = buffer ! 1, rsv = buffer ! 2, atyp = buffer ! 3,
                  requestBuffer = buffer, remaining = drop 4 buffer\<rparr>"
  using assms
  by (simp add: parseConnectRequest_def word8_def readUInt8_def newBinaryReader_def
      reader_remaining_def eval_nat_numeral)

lemma parseConnectRequest_short:
  assumes "length buffer < 4"
  shows "parseConnectRequest buffer = Inl RangeError"
  using assms
  by (simp add: parseConnectRequest_def word8_def readUInt8_def newBinaryReader_def)

lemma destination_reads_atyp_remaining:
  assumes "atyp r = atyp r'" and "remaining r = remaining r'"
  shows "destination r = destination r'"
  unfolding destination_def assms by (rule refl)

lemma successReply_update:
  "successReply (buffer[1 := c]) = successReply buffer"
  by (simp add: successReply_def drop_update_cancel)

text \<open>
  \<open>connect\<close> of server.ts parses \<open>cmd\<close> and never reads it: a request is handled
  as the same request with any other command byte.
\<close>

lemma connect_ignores_cmd:
  "connect options net (buffer[1 := c]) = connect options net buffer"
proof (cases "4 \<le> length buffer")
  case True
  let ?b = "buffer[1 := c]"
  let ?r = "\<lparr>ver = buffer ! 0, cmd = buffer ! 1, rsv = buffer ! 2, atyp = buffer ! 3,
              requestBuffer = buffer, remaining = drop 4 buffer\<rparr>"
  let ?q = "\<lparr>ver = ?b ! 0, cmd = ?b ! 1, rsv = ?b ! 2, atyp = ?b ! 3,
              requestBuffer = ?b, remaining = drop 4 ?b\<rparr>"
  have p: "parseConnectRequest buffer = Inr ?r"
    using True by (rule parseConnectRequest_long)
  have q: "parseConnectRequest ?b = Inr ?q"
    using True by (intro parseConnectRequest_long) simp
  have v: "ver ?q = ver ?r"
    by simp
  have d: "destination ?q = destination ?r"
    by (rule destination_reads_atyp_remaining) (simp_all add: drop_update_cancel)
  have s: "successReply (requestBuffer ?q) = successReply (requestBuffer ?r)"
    unfolding ConnectRequest.select_convs by (rule successReply_update)
  show ?thesis
    unfolding connect_def p q sum.case v d s by (rule refl)
next
  case False
  then show ?thesis
    by (simp add: connect_def parseConnectRequest_short)
qed

text \<open>
  C1, as the code has it. The handler on the binary package answers a request whose
  command is not CONNECT (and whose version, address type and length are in order) with
  the request buffer itself, byte 1 set to SUCCEEDED (0x00), and ends the socket; neither
  the connection filter nor the factory is called.
\<close>

theorem other_command_reply:
  assumes "legacy_connect options net origin buffer = Some (acts, out)"
    and "buffer ! 1 \<noteq> RFC_1928_COMMANDS_CONNECT"
  shows "acts = [Push, EndWith (buffer[1 := SUCCEEDED]), Emit (PROXY_END SUCCEEDED)]
         \<and> out = Next NoListener"
  using assms
  by (auto simp add: legacy_connect_def field_def legacy_end_def Let_def
      split: option.splits if_splits prod.splits)

theorem other_command_reply_witness:
  "legacy_connect no_options (\<lambda>a p. Resolved) (''10.0.0.9'', 5555)
       [0x05, 0x02, 0x00, 0x01, 127, 0, 0, 1, 0, 80]
     = Some ([Push, EndWith [0x05, 0x00, 0x00, 0x01, 127, 0, 0, 1, 0, 80], Emit (PROXY_END 0x00)],
             Next NoListener)
   \<and> [0x05, 0x02, 0x00, 0x01, 127, 0, 0, 1, 0, 80 :: byte] ! 1 \<noteq> RFC_1928_COMMANDS_CONNECT"
proof -
  have h:
    "legacy_connect no_options (\<lambda>a p. Resolved) (''10.0.0.9'', 5555)
       [0x05, 0x02, 0x00, 0x01, 127, 0, 0, 1, 0, 80]
     = Some ([Push, EndWith [0x05, 0x00, 0x00, 0x01, 127, 0, 0, 1, 0, 80], Emit (PROXY_END 0x00)],
             Next NoListener)"
    by code_simp
  have c: "[0x05, 0x02, 0x00, 0x01, 127, 0, 0, 1, 0, 80 :: byte] ! 1 \<noteq> RFC_1928_COMMANDS_CONNECT"
    by simp
  from other_command_reply [OF h c] h c show ?thesis by simp
qed

text \<open>
  C1 as stated fails on a BIND request for 127.0.0.1:80: the handler on the binary
  package replies with code 0x00, not 0x07, and \<open>connect\<close> of server.ts, which never
  reads \<open>cmd\<close>, calls the factory and replies SUCCEEDED as it does for CONNECT.
\<close>

theorem bind_request_not_refused:
  "legacy_connect no_options (\<lambda>a p. Resolved) (''10.0.0.9'', 5555)
       [0x05, 0x02, 0x00, 0x01, 127, 0, 0, 1, 0, 80]
     = Some ([Push, EndWith [0x05, 0x00, 0x00, 0x01, 127, 0, 0, 1, 0, 80], Emit (PROXY_END 0x00)],
             Next NoListener)
   \<and> connect no_options (\<lambda>a p. Resolved) [0x05, 0x02, 0x00, 0x01, 127, 0, 0, 1, 0, 80]
     = ([Push, CallFactory ''127.0.0.1'' 80,
         Write [0x05, 0x00, 0x00, 0x01, 127, 0, 0, 1, 0, 80] ThenPipe], Next Piped)"
  by code_simp


subsection \<open>The reply to a failed outbound connection\<close>

lemma legacy_outbound_rejected:
  assumes "legacy_outbound options net buffer a p = (acts, out)"
    and "CallFactory addr port \<in> set acts"
    and "socketFactory_of options net addr port = Rejected code"
  shows "acts = [CallFactory addr port, Emit PROXY_ERROR,
                 EndWith (buffer[1 := legacy_reply_for code]),
                 Emit (PROXY_END (legacy_reply_for code))]
         \<and> out = Next NoListener"
proof -
  have "a = addr \<and> p = port"
    using assms(1,2)
    by (auto simp add: legacy_outbound_def legacy_end_def split: promise.splits)
  then show ?thesis
    using assms(1,3) by (auto simp add: legacy_outbound_def legacy_end_def)
qed

lemma legacy_connect_rejected:
  assumes "legacy_connect options net origin buffer = Some (acts, out)"
    and "CallFactory addr port \<in> set acts"
    and "socketFactory_of options net addr port = Rejected code"
  shows "wire acts = [buffer[1 := legacy_reply_for code]] \<and> list_ex closing acts
         \<and> out = Next NoListener"
proof -
  from assms(1) obtain a p acts' where
    ob: "legacy_outbound options net buffer a p = (acts', out)"
    and shape: "acts = Push # acts' \<or> acts = Push # CallFilter a p (fst origin) (snd origin) # acts'"
    using assms(2)
    by (auto simp add: legacy_connect_def Let_def legacy_end_def
        split: option.splits if_splits prod.splits callback.splits)
  from shape assms(2) have "CallFactory addr port \<in> set acts'" by auto
  from legacy_outbound_rejected [OF ob this assms(3)] shape show ?thesis by auto
qed

lemma connect_rejected:
  assumes "CallFactory addr port \<in> set (fst (connect options net buffer))"
    and "socketFactory_of options net addr port = Rejected code"
  shows "connect options net buffer
           = ([Push, CallFactory addr port, Write [0x05, 0x01] ThenEnd, Emit PROXY_ERROR],
              Next NoListener)"
proof -
  obtain request where r: "parseConnectRequest buffer = Inr request"
    using assms(1) by (cases "parseConnectRequest buffer") (auto simp add: connect_def)
  have v: "ver request = RFC_1928_VERSION"
    using assms(1) r by (auto simp add: connect_def end_reply_def split: if_splits)
  obtain a p where d: "destination request = Some (Inr (a, p))"
    using assms(1) r v
    by (cases "destination request")
       (auto simp add: connect_def end_reply_def split: sum.splits)
  have "a = addr \<and> p = port"
    using assms(1) r v d by (auto simp add: connect_def end_reply_def split: promise.splits)
  then show ?thesis
    using assms(2) r v d by (simp add: connect_def end_reply_def)
qed

text \<open>
  C2, as the code has it. When the factory that was called for the request rejects with
  an error of code \<open>code\<close>: the handler on the binary package sends the request buffer
  back with byte 1 set to HOST_UNREACHABLE (0x04) for \<open>EADDRNOTAVAIL\<close>, to
  CONNECTION_REFUSED (0x05) for \<open>ECONNREFUSED\<close> and to NETWORK_UNREACHABLE (0x03) for
  anything else, and ends the socket; \<open>connect\<close> of server.ts writes the two bytes
  05 01 (GENERAL_FAILURE) whatever the error, ends the socket and emits \<open>proxyError\<close>.
\<close>

theorem outbound_failure_reply:
  "(legacy_connect options net origin buffer = Some (acts, out)
      \<and> CallFactory addr port \<in> set acts
      \<and> socketFactory_of options net addr port = Rejected code
     \<longrightarrow> wire acts
           = [buffer[1 := (if code = Some ''EADDRNOTAVAIL'' then HOST_UNREACHABLE
                           else if code = Some ''ECONNREFUSED'' then CONNECTION_REFUSED
                           else NETWORK_UNREACHABLE)]]
         \<and> list_ex closing acts \<and> out = Next NoListener)
   \<and> (CallFactory addr port \<in> set (fst (connect options net buffer))
      \<and> socketFactory_of options net addr port = Rejected code
     \<longrightarrow> connect options net buffer
           = ([Push, CallFactory addr port, Write [0x05, 0x01] ThenEnd, Emit PROXY_ERROR],
              Next NoListener))"
  using legacy_connect_rejected [of options net origin buffer acts out addr port code]
    connect_rejected [of addr port options net buffer code]
  by (simp add: legacy_reply_for_def)

theorem outbound_failure_reply_witness:
  "legacy_connect no_options (\<lambda>a p. Rejected (Some ''ECONNREFUSED'')) (''10.0.0.9'', 5555)
       [0x05, 0x01, 0x00, 0x01, 127, 0, 0, 1, 0, 1]
     = Some ([Push, CallFactory ''127.0.0.1'' 1, Emit PROXY_ERROR,
              EndWith [0x05, 0x05, 0x00, 0x01, 127, 0, 0, 1, 0, 1], Emit (PROXY_END 0x05)],
             Next NoListener)
   \<and> socketFactory_of no_options (\<lambda>a p. Rejected (Some ''ECONNREFUSED'')) ''127.0.0.1'' 1
       = Rejected (Some ''ECONNREFUSED'')
   \<and> wire [Push, CallFactory ''127.0.0.1'' 1, Emit PROXY_ERROR,
            EndWith [0x05, 0x05, 0x00, 0x01, 127, 0, 0, 1, 0, 1], Emit (PROXY_END 0x05)]
       = [[0x05, 0x05, 0x00, 0x01, 127, 0, 0, 1, 0, 1]]
   \<and> connect no_options (\<lambda>a p. Rejected (Some ''ECONNREFUSED''))
        [0x05, 0x01, 0x00, 0x01, 127, 0, 0, 1, 0, 1]
       = ([Push, CallFactory ''127.0.0.1'' 1, Write [0x05, 0x01] ThenEnd, Emit PROXY_ERROR],
          Next NoListener)"
proof -
  have h1: "legacy_connect no_options (\<lambda>a p. Rejected (Some ''ECONNREFUSED''))
              (''10.0.0.9'', 5555) [0x05, 0x01, 0x00, 0x01, 127, 0, 0, 1, 0, 1]
            = Some ([Push, CallFactory ''127.0.0.1'' 1, Emit PROXY_ERROR,
                     EndWith [0x05, 0x05, 0x00, 0x01, 127, 0, 0, 1, 0, 1], Emit (PROXY_END 0x05)],
                    Next NoListener)"
    by code_simp
  have h2: "socketFactory_of no_options (\<lambda>a p. Rejected (Some ''ECONNREFUSED'')) ''127.0.0.1'' 1
            = Rejected (Some ''ECONNREFUSED'')"
    by (simp add: socketFactory_of_def no_options_def)
  have h3: "CallFactory ''127.0.0.1'' 1
              \<in> set (fst (connect no_options (\<lambda>a p. Rejected (Some ''ECONNREFUSED''))
                             [0x05, 0x01, 0x00, 0x01, 127, 0, 0, 1, 0, 1]))"
    by code_simp
  show ?thesis
    using h1 h2 h3
      outbound_failure_reply [of no_options "\<lambda>a p. Rejected (Some ''ECONNREFUSED'')"
        "(''10.0.0.9'', 5555)" "[0x05, 0x01, 0x00, 0x01, 127, 0, 0, 1, 0, 1]"
        "[Push, CallFactory ''127.0.0.1'' 1, Emit PROXY_ERROR,
          EndWith [0x05, 0x05, 0x00, 0x01, 127, 0, 0, 1, 0, 1], Emit (PROXY_END 0x05)]"
        "Next NoListener" "''127.0.0.1''" 1 "Some ''ECONNREFUSED''"]
    by simp
qed

text \<open>
  C2 as stated fails on server.ts: a CONNECT to the closed port 127.0.0.1:1, which the
  host refuses with \<open>ECONNREFUSED\<close>, is answered 05 01, not with reply code 0x05.
\<close>

theorem refused_connection_general_failure:
  "connect no_options (\<lambda>a p. Rejected (Some ''ECONNREFUSED''))
       [0x05, 0x01, 0x00, 0x01, 127, 0, 0, 1, 0, 1]
     = ([Push, CallFactory ''127.0.0.1'' 1, Write [0x05, 0x01] ThenEnd, Emit PROXY_ERROR],
        Next NoListener)"
  by code_simp


subsection \<open>Frame atomicity\<close>

lemma replies_append: "replies (xs @ ys) = replies xs @ replies ys"
  by (induction xs rule: replies.induct) simp_all

lemma greeting_replies_once:
  "(\<exists>b. greeting options buffer = ([Write b (ThenOnce Authenticate)], Next Authenticate))
   \<or> (\<exists>b. greeting options buffer = ([Write b (ThenOnce Connect)], Next Connect))
   \<or> (\<exists>b. greeting options buffer = ([Write b ThenEnd], Next NoListener))"
  by (simp add: greeting_def select_method_def end_reply_def)

lemma authenticate_replies_at_most_once:
  "(\<exists>b. replies (map (Pair l) (fst (authenticate options buffer))) = [(l, b, ThenOnce Connect)]
        \<and> snd (authenticate options buffer) = Next Connect)
   \<or> (\<exists>b. replies (map (Pair l) (fst (authenticate options buffer))) = [(l, b, ThenEnd)]
        \<and> snd (authenticate options buffer) = Next NoListener)
   \<or> (replies (map (Pair l) (fst (authenticate options buffer))) = []
        \<and> (snd (authenticate options buffer) = Next NoListener
            \<or> (\<exists>e. snd (authenticate options buffer) = Throw e)))"
  by (auto simp add: authenticate_def end_reply_def Let_def
      split: sum.splits option.splits callback.splits)

lemma connect_replies_at_most_once:
  "((\<exists>b w. replies (map (Pair l) (fst (connect options net buffer))) = [(l, b, w)])
    \<or> replies (map (Pair l) (fst (connect options net buffer))) = [])
   \<and> (snd (connect options net buffer) = Next NoListener
      \<or> snd (connect options net buffer) = Next Piped
      \<or> (\<exists>e. snd (connect options net buffer) = Throw e))"
  by (auto simp add: connect_def end_reply_def
      split: sum.splits option.splits promise.splits)

lemma framed_done_cases:
  "framed_done [(Greeting, b, w)]"
  "w \<noteq> ThenEnd \<Longrightarrow> framed_done [(Greeting, b, w), (Authenticate, b', w')]"
  "w \<noteq> ThenEnd \<Longrightarrow> framed_done [(Greeting, b, w), (Connect, b', w')]"
  "w \<noteq> ThenEnd \<Longrightarrow> w' \<noteq> ThenEnd
     \<Longrightarrow> framed_done [(Greeting, b, w), (Authenticate, b', w'), (Connect, b'', w'')]"
  by (simp_all add: framed_done_def)

lemma on_data_framed:
  assumes "framed (armed s) (replies (log s))"
  shows "framed (armed (on_data options net s buffer))
                (replies (log (on_data options net s buffer)))"
proof (cases "armed s")
  case Greeting
  with assms have e: "replies (log s) = []" by simp
  from greeting_replies_once [of options buffer] show ?thesis
    by (auto simp add: on_data_def dispatch_def Greeting e replies_append framed_done_cases)
next
  case Authenticate
  with assms obtain b where e: "replies (log s) = [(Greeting, b, ThenOnce Authenticate)]"
    by auto
  obtain acts out where a: "authenticate options buffer = (acts, out)"
    by (cases "authenticate options buffer")
  from authenticate_replies_at_most_once [of Authenticate options buffer] show ?thesis
    unfolding a
    by (auto simp add: on_data_def dispatch_def Authenticate a e replies_append
        framed_done_cases)
next
  case Connect
  obtain acts out where a: "connect options net buffer = (acts, out)"
    by (cases "connect options net buffer")
  from assms Connect connect_replies_at_most_once [of Connect options net buffer] show ?thesis
    unfolding a
    by (auto simp add: on_data_def dispatch_def Connect a replies_append framed_done_cases)
next
  case NoListener
  with assms show ?thesis by (simp add: on_data_def dispatch_def)
next
  case Piped
  with assms show ?thesis by (simp add: on_data_def dispatch_def replies_append)
qed

lemma on_data_leaves_greeting:
  "armed (on_data options net s buffer) \<noteq> Greeting"
proof (cases "armed s")
  case Greeting
  from greeting_replies_once [of options buffer] show ?thesis
    by (auto simp add: on_data_def dispatch_def Greeting)
next
  case Authenticate
  from authenticate_replies_at_most_once [of Authenticate options buffer] show ?thesis
    by (cases "authenticate options buffer")
       (auto simp add: on_data_def dispatch_def Authenticate)
next
  case Connect
  from connect_replies_at_most_once [of Connect options net buffer] show ?thesis
    by (cases "connect options net buffer")
       (auto simp add: on_data_def dispatch_def Connect)
next
  case NoListener
  then show ?thesis by (simp add: on_data_def dispatch_def)
next
  case Piped
  then show ?thesis by (simp add: on_data_def dispatch_def)
qed

lemma feed_framed:
  assumes "framed (armed s) (replies (log s))"
  shows "framed (armed (feed options net s bs)) (replies (log (feed options net s bs)))"
  using assms
proof (induction bs arbitrary: s)
  case Nil
  then show ?case by simp
next
  case (Cons b bs)
  from Cons.prems have "framed (armed (on_data options net s b))
                               (replies (log (on_data options net s b)))"
    by (rule on_data_framed)
  then show ?case by (simp add: Cons.IH)
qed

lemma feed_leaves_greeting:
  assumes "armed s \<noteq> Greeting"
  shows "armed (feed options net s bs) \<noteq> Greeting"
  using assms
  by (induction bs arbitrary: s) (simp_all add: on_data_leaves_greeting)

lemma framed_past_greeting:
  assumes "framed l rs" and "l \<noteq> Greeting"
  shows "framed_done rs"
  using assms by (cases l) (auto simp add: framed_done_def)

lemma frames_after_first_chunk:
  "framed_done (replies (log (feed options net accept (c # cs))))"
proof -
  let ?s = "on_data options net accept c"
  have "framed (armed accept) (replies (log accept))"
    by (simp add: accept_def)
  then have "framed (armed ?s) (replies (log ?s))"
    by (rule on_data_framed)
  then have f: "framed (armed (feed options net ?s cs)) (replies (log (feed options net ?s cs)))"
    by (rule feed_framed)
  have "armed (feed options net ?s cs) \<noteq> Greeting"
    by (rule feed_leaves_greeting) (rule on_data_leaves_greeting)
  with f have "framed_done (replies (log (feed options net ?s cs)))"
    by (rule framed_past_greeting)
  then show ?thesis by simp
qed

text \<open>
  C7. Whatever chunks the client sends, well-formed or not, the replies written by the
  session of server.ts are at most one from the greeting handler, then at most one from
  \<open>authenticate\<close>, then at most one from \<open>connect\<close>, in this order; the one from
  the greeting handler (the method reply, or the two-byte failure 05 01 or 05 FF in its
  place) is there as soon as the client has sent anything; and only the last reply written
  can be one that ends the socket, so no second reply follows a failure. Each chunk is
  taken by the listener the previous reply armed.
\<close>

theorem frame_atomicity:
  "map fst (replies (log (feed options net accept chunks)))
     \<in> {[], [Greeting], [Greeting, Authenticate], [Greeting, Connect],
         [Greeting, Authenticate, Connect]}
   \<and> (replies (log (feed options net accept chunks)) = []) = (chunks = [])
   \<and> ThenEnd \<notin> set (map (snd \<circ> snd)
                        (butlast (replies (log (feed options net accept chunks)))))"
proof (cases chunks)
  case Nil
  then show ?thesis by (simp add: accept_def)
next
  case (Cons c cs)
  from frames_after_first_chunk [of options net c cs] show ?thesis
    unfolding Cons framed_done_def by auto
qed

theorem frame_atomicity_witness:
  "map fst (replies (log (feed (no_options\<lparr>opt_authenticate := Some (\<lambda>u p. DoneOk)\<rparr>)
                               (\<lambda>a p. Rejected None) accept
                               [[0x05, 0x01, 0x02], [0x01, 0x01, 0x61, 0x01, 0x62],
                                [0x05, 0x01, 0x00, 0x01, 127, 0, 0, 1, 0, 80], [0x05]])))
     = [Greeting, Authenticate, Connect]
   \<and> ThenEnd \<notin> set (map (snd \<circ> snd)
        (butlast (replies (log (feed (no_options\<lparr>opt_authenticate := Some (\<lambda>u p. DoneOk)\<rparr>)
                                     (\<lambda>a p. Rejected None) accept
                                     [[0x05, 0x01, 0x02], [0x01, 0x01, 0x61, 0x01, 0x62],
                                      [0x05, 0x01, 0x00, 0x01, 127, 0, 0, 1, 0, 80], [0x05]])))))"
proof -
  have "map fst (replies (log (feed (no_options\<lparr>opt_authenticate := Some (\<lambda>u p. DoneOk)\<rparr>)
                                    (\<lambda>a p. Rejected None) accept
                                    [[0x05, 0x01, 0x02], [0x01, 0x01, 0x61, 0x01, 0x62],
                                     [0x05, 0x01, 0x00, 0x01, 127, 0, 0, 1, 0, 80], [0x05]])))
          = [Greeting, Authenticate, Connect]"
    by code_simp
  with frame_atomicity [of "no_options\<lparr>opt_authenticate := Some (\<lambda>u p. DoneOk)\<rparr>"
      "\<lambda>a p. Rejected None"
      "[[0x05, 0x01, 0x02], [0x01, 0x01, 0x61, 0x01, 0x62],
        [0x05, 0x01, 0x00, 0x01, 127, 0, 0, 1, 0, 80], [0x05]]"]
  show ?thesis by simp
qed


subsection \<open>The registry of sessions\<close>

lemma greeting_never_pushes:
  "filter (\<lambda>x. snd x = Push) (map (Pair l) (fst (greeting options buffer))) = []"
  by (simp add: greeting_def select_method_def end_reply_def)

lemma authenticate_never_pushes:
  "filter (\<lambda>x. snd x = Push) (map (Pair l) (fst (authenticate options buffer))) = []"
  by (simp add: authenticate_def end_reply_def Let_def
      split: sum.splits option.splits callback.splits)

lemma connect_pushes_once:
  assumes "4 \<le> length buffer" and "buffer ! 0 = RFC_1928_VERSION"
  shows "filter (\<lambda>x. snd x = Push) (map (Pair l) (fst (connect options net buffer)))
           = [(l, Push)]"
  using assms
  by (simp add: connect_def parseConnectRequest_long end_reply_def
      split: sum.splits option.splits promise.splits)

lemma log_on_data:
  "log (on_data options net s buffer)
     = log s @ map (Pair (armed s)) (fst (dispatch options net (armed s) buffer))"
  by (cases "dispatch options net (armed s) buffer")
     (simp add: on_data_def split: outcome.splits)

lemma server_step_appends:
  "prefix (activeSessions srv) (activeSessions (server_step options net srv ev))"
  by (cases ev) (simp_all add: server_step_def Let_def)

lemma server_run_appends:
  "prefix (activeSessions srv) (activeSessions (server_run options net srv evs))"
proof (induction evs arbitrary: srv)
  case Nil
  show ?case by simp
next
  case (Cons ev evs)
  have "prefix (activeSessions srv) (activeSessions (server_step options net srv ev))"
    by (rule server_step_appends)
  also have "prefix \<dots> (activeSessions (server_run options net
                                          (server_step options net srv ev) evs))"
    by (rule Cons.IH)
  finally show ?case by simp
qed

text \<open>
  C10. In server.ts \<open>activeSessions\<close> only grows: over any run of the server (new
  connections, chunks on any socket, clients going away, \<open>close\<close>) the registry at the
  start is a prefix of the registry at the end. A new connection and a client going away
  leave it as it is; a request frame of at least four bytes with version 5, handled by
  \<open>connect\<close>, appends the socket; and \<open>close\<close> calls \<open>end()\<close> on every socket of
  the registry, so on every socket registered at any earlier time, whatever happened to
  its connection since.
\<close>

theorem activeSessions_append_only:
  "prefix (activeSessions srv) (activeSessions (server_run options net srv evs))
   \<and> activeSessions (server_step options net srv Connection) = activeSessions srv
   \<and> activeSessions (server_step options net srv (Disconnect sock)) = activeSessions srv
   \<and> (sock < length (sockets srv) \<and> sock \<notin> set (disconnected srv)
        \<and> armed (sockets srv ! sock) = Connect
        \<and> 4 \<le> length buffer \<and> buffer ! 0 = RFC_1928_VERSION
      \<longrightarrow> activeSessions (server_step options net srv (Data sock buffer))
            = activeSessions srv @ [sock])
   \<and> ended (server_step options net srv Close) = ended srv @ activeSessions srv
   \<and> set (activeSessions srv)
        \<subseteq> set (ended (server_step options net (server_run options net srv evs) Close))"
proof (intro conjI impI)
  show "prefix (activeSessions srv) (activeSessions (server_run options net srv evs))"
    by (rule server_run_appends)
  show "activeSessions (server_step options net srv Connection) = activeSessions srv"
    by (simp add: server_step_def)
  show "activeSessions (server_step options net srv (Disconnect sock)) = activeSessions srv"
    by (simp add: server_step_def)
  show "ended (server_step options net srv Close) = ended srv @ activeSessions srv"
    by (simp add: server_step_def)
  have "set (activeSessions srv) \<subseteq> set (activeSessions (server_run options net srv evs))"
    using server_run_appends [of srv options net evs] by (rule set_mono_prefix)
  then show "set (activeSessions srv)
        \<subseteq> set (ended (server_step options net (server_run options net srv evs) Close))"
    by (auto simp add: server_step_def)
next
  assume h: "sock < length (sockets srv) \<and> sock \<notin> set (disconnected srv)
        \<and> armed (sockets srv ! sock) = Connect
        \<and> 4 \<le> length buffer \<and> buffer ! 0 = RFC_1928_VERSION"
  then have "pushes sock (map (Pair Connect) (fst (connect options net buffer))) = [sock]"
    by (simp add: pushes_def connect_pushes_once)
  with h show "activeSessions (server_step options net srv (Data sock buffer))
            = activeSessions srv @ [sock]"
    by (simp add: server_step_def Let_def log_on_data dispatch_def)
qed

theorem activeSessions_append_only_witness:
  "server_run no_options (\<lambda>a p. Resolved) newSocksServer [Connection, Data 0 [0x05, 0x01, 0x00]]
     = \<lparr>activeSessions = [],
        sockets = [\<lparr>armed = Connect, log = [(Greeting, Write [0x05, 0x00] (ThenOnce Connect))],
                    uncaught = []\<rparr>],
        disconnected = [], ended = []\<rparr>
   \<and> activeSessions (server_step no_options (\<lambda>a p. Resolved)
        \<lparr>activeSessions = [],
         sockets = [\<lparr>armed = Connect, log = [(Greeting, Write [0x05, 0x00] (ThenOnce Connect))],
                     uncaught = []\<rparr>],
         disconnected = [], ended = []\<rparr>
        (Data 0 [0x05, 0x01, 0x00, 0x01, 127, 0, 0, 1, 0, 80])) = [0]
   \<and> ended (server_run no_options (\<lambda>a p. Resolved) newSocksServer
        [Connection, Data 0 [0x05, 0x01, 0x00],
         Data 0 [0x05, 0x01, 0x00, 0x01, 127, 0, 0, 1, 0, 80], Disconnect 0,
         Connection, Data 1 [0x05, 0x01, 0x00], Close]) = [0]"
proof -
  let ?srv = "\<lparr>activeSessions = [],
        sockets = [\<lparr>armed = Connect, log = [(Greeting, Write [0x05, 0x00] (ThenOnce Connect))],
                    uncaught = []\<rparr>],
        disconnected = [], ended = []\<rparr>"
  have r: "server_run no_options (\<lambda>a p. Resolved) newSocksServer
             [Connection, Data 0 [0x05, 0x01, 0x00]] = ?srv"
    by code_simp
  have e: "ended (server_run no_options (\<lambda>a p. Resolved) newSocksServer
        [Connection, Data 0 [0x05, 0x01, 0x00],
         Data 0 [0x05, 0x01, 0x00, 0x01, 127, 0, 0, 1, 0, 80], Disconnect 0,
         Connection, Data 1 [0x05, 0x01, 0x00], Close]) = [0]"
    by code_simp
  from activeSessions_append_only [of ?srv no_options "\<lambda>a p. Resolved" "[]" 0
      "[0x05, 0x01, 0x00, 0x01, 127, 0, 0, 1, 0, 80]"] r e
  show ?thesis by simp
qed


subsection \<open>The handlers on the binary package reply at most once\<close>

lemma legacy_handshake_replies_once:
  assumes "legacy_handshake options buffer = Some (acts, out)"
  shows "length (wire acts) = 1"
  using assms
  by (auto simp add: legacy_handshake_def legacy_end_def Let_def
      split: option.splits if_splits)

lemma legacy_authenticate_replies_at_most_once:
  assumes "legacy_authenticate options buffer = Some (acts, out)"
  shows "length (wire acts) \<le> 1"
  using assms
  by (auto simp add: legacy_authenticate_def legacy_end_def Let_def
      split: option.splits if_splits callback.splits)

lemma legacy_outbound_replies_at_most_once:
  assumes "legacy_outbound options net buffer addr port = (acts, out)"
  shows "length (wire acts) \<le> 1"
  using assms
  by (auto simp add: legacy_outbound_def legacy_end_def split: promise.splits)

lemma legacy_connect_replies_at_most_once:
  assumes "legacy_connect options net origin buffer = Some (acts, out)"
  shows "length (wire acts) \<le> 1"
  using assms legacy_outbound_replies_at_most_once [of options net buffer]
  by (auto simp add: legacy_connect_def legacy_end_def Let_def
      split: option.splits if_splits prod.splits callback.splits)

end
